theory Spec2Isabelle
  imports Main "HOL-Library.Sublist" "HOL-Library.AList"
begin

section \<open>The job detail side-panel (Sidebar.tsx)\<close>

subsection \<open>Jobs and tabs\<close>

text \<open>
  Modelled from the spec: the \<^verbatim>\<open>JobState\<close> enum is declared in
  \<^verbatim>\<open>models/lookoutV2Models\<close>, which is not among the source files. The members are
  the ones the data model of the specification lists; \<open>OtherState\<close> stands for the
  members it elides. The source itself names \<^verbatim>\<open>JobState.Queued\<close>,
  \<^verbatim>\<open>Pending\<close>, \<^verbatim>\<open>Running\<close> and \<^verbatim>\<open>Succeeded\<close>.
\<close>

datatype JobState =
  Queued | Pending | Running | Succeeded | Failed | Cancelled | Preempted
  | OtherState string

text \<open>
  The side-panel reads two fields of its \<^verbatim>\<open>job\<close> property, \<^verbatim>\<open>job.jobId\<close> and
  \<^verbatim>\<open>job.state\<close>. Every other field of a job is carried by the extension part of the
  record, so the functions below are defined for any job whatever else it holds.
\<close>

record Job =
  jobId :: string
  state :: JobState

text \<open>\<^verbatim>\<open>enum SidebarTab { JobDetails, JobResult, Yaml, Logs, Commands }\<close>\<close>

datatype SidebarTab = JobDetails | JobResult | Yaml | Logs | Commands

text \<open>
  One \<^verbatim>\<open><Tab label=... value=... disabled=... />\<close> element. A tab written without the
  \<^verbatim>\<open>disabled\<close> attribute is enabled: the attribute is a boolean that is false when
  absent.
\<close>

record TabProps =
  label :: string
  tabValue :: SidebarTab
  disabled :: bool

text \<open>
  The children of \<^verbatim>\<open><Tabs>\<close> in the order of the source:
  \<^verbatim>\<open>
  <Tab label="Details" value={SidebarTab.JobDetails} />
  <Tab label="Result" value={SidebarTab.JobResult} />
  <Tab label="Yaml" value={SidebarTab.Yaml} />
  <Tab label="Logs" value={SidebarTab.Logs} disabled={job.state === JobState.Queued} />
  <Tab label="Commands" value={SidebarTab.Commands} disabled={job.state === JobState.Queued} />
  \<close>
\<close>

definition sidebarTabs :: "'a Job_scheme \<Rightarrow> TabProps list" where
  "sidebarTabs job =
     [\<lparr>label = ''Details'', tabValue = JobDetails, disabled = False\<rparr>,
      \<lparr>label = ''Result'', tabValue = JobResult, disabled = False\<rparr>,
      \<lparr>label = ''Yaml'', tabValue = Yaml, disabled = False\<rparr>,
      \<lparr>label = ''Logs'', tabValue = Logs, disabled = (state job = Queued)\<rparr>,
      \<lparr>label = ''Commands'', tabValue = Commands, disabled = (state job = Queued)\<rparr>]"

text \<open>Whether the tab with a given label is rendered disabled; \<open>None\<close> when there is no such tab.\<close>

definition tabDisabled :: "'a Job_scheme \<Rightarrow> string \<Rightarrow> bool option" where
  "tabDisabled job l = map_of (map (\<lambda>t. (label t, disabled t)) (sidebarTabs job)) l"

subsection \<open>Resizing by dragging\<close>

text \<open>
  \<^verbatim>\<open>type ResizeState = { isResizing: boolean; startX: number; currentX: number }\<close>

  Pixel positions and widths are integers here: \<^verbatim>\<open>offsetWidth\<close> and
  \<^verbatim>\<open>offsetLeft\<close> are integer properties of the DOM, and the subtraction and the two
  comparisons of the handler are exact on such values.
\<close>

record ResizeState =
  isResizing :: bool
  startX :: int
  currentX :: int

text \<open>The value given to \<^verbatim>\<open>useState<ResizeState>\<close>: the state of the first render.\<close>

definition initialResizeState :: ResizeState where
  "initialResizeState = \<lparr>isResizing = False, startX = 0, currentX = 0\<rparr>"

text \<open>
  What the component holds while it is mounted: the \<^verbatim>\<open>resizeRef\<close> flag, the
  \<^verbatim>\<open>resizeState\<close> value, and, as the record of its effect on the parent, the
  arguments of the calls of \<^verbatim>\<open>onWidthChange\<close> made so far, oldest first.
\<close>

record SidebarState =
  resizeRef :: bool
  resizeState :: ResizeState
  widthChanges :: "int list"

definition initialSidebarState :: SidebarState where
  "initialSidebarState =
     \<lparr>resizeRef = False, resizeState = initialResizeState, widthChanges = []\<rparr>"

text \<open>\<^verbatim>\<open>document.body.offsetWidth\<close> and \<^verbatim>\<open>document.body.offsetLeft\<close> when an event arrives.\<close>

record Body =
  offsetWidth :: int
  offsetLeft :: int

definition minWidth :: int where
  "minWidth = 350"

definition maxWidth :: int where
  "maxWidth = 1920"

text \<open>
  \<^verbatim>\<open>
  const handleMouseDown = useCallback((x: number) => {
    resizeRef.current = true
    setResizeState({ isResizing: true, startX: x, currentX: x })
  }, [])
  \<close>
\<close>

definition handleMouseDown :: "int \<Rightarrow> SidebarState \<Rightarrow> SidebarState" where
  "handleMouseDown x s =
     s\<lparr>resizeRef := True,
       resizeState := \<lparr>isResizing = True, startX = x, currentX = x\<rparr>\<rparr>"

text \<open>\<^verbatim>\<open>const offsetRight = document.body.offsetWidth - (x - document.body.offsetLeft)\<close>\<close>

definition offsetRight :: "Body \<Rightarrow> int \<Rightarrow> int" where
  "offsetRight body x = offsetWidth body - (x - offsetLeft body)"

text \<open>
  \<^verbatim>\<open>
  const handleMouseMove = useCallback((x: number) => {
    if (!resizeRef.current) {
      return
    }
    setResizeState({ ...resizeState, currentX: x })
    const offsetRight = document.body.offsetWidth - (x - document.body.offsetLeft)
    const minWidth = 350
    const maxWidth = 1920
    if (offsetRight > minWidth && offsetRight < maxWidth) {
      onWidthChange(offsetRight)
    }
  }, [])
  \<close>
  The callback is created once (its dependency list is empty), so the
  \<^verbatim>\<open>resizeState\<close> it spreads is the one of the first render.
\<close>

definition handleMouseMove :: "Body \<Rightarrow> int \<Rightarrow> SidebarState \<Rightarrow> SidebarState" where
  "handleMouseMove body x s =
     (if \<not> resizeRef s then s
      else
        let s' = s\<lparr>resizeState := initialResizeState\<lparr>currentX := x\<rparr>\<rparr>
        in if offsetRight body x > minWidth \<and> offsetRight body x < maxWidth
           then s'\<lparr>widthChanges := widthChanges s' @ [offsetRight body x]\<rparr>
           else s')"

text \<open>
  \<^verbatim>\<open>
  const handleMouseUp = useCallback(() => {
    resizeRef.current = false
    setResizeState({ ...resizeState, isResizing: false })
  }, [])
  \<close>
\<close>

definition handleMouseUp :: "SidebarState \<Rightarrow> SidebarState" where
  "handleMouseUp s =
     s\<lparr>resizeRef := False, resizeState := initialResizeState\<lparr>isResizing := False\<rparr>\<rparr>"

text \<open>
  The three listeners: \<^verbatim>\<open>mousedown\<close> on the dragger, \<^verbatim>\<open>mousemove\<close> and
  \<^verbatim>\<open>mouseup\<close> on the document. A move carries the body's metrics at that moment.
\<close>

datatype MouseEvent = MouseDown int | MouseMove Body int | MouseUp

fun handleEvent :: "MouseEvent \<Rightarrow> SidebarState \<Rightarrow> SidebarState" where
  "handleEvent (MouseDown x) s = handleMouseDown x s"
| "handleEvent (MouseMove body x) s = handleMouseMove body x s"
| "handleEvent MouseUp s = handleMouseUp s"

fun runEvents :: "MouseEvent list \<Rightarrow> SidebarState \<Rightarrow> SidebarState" where
  "runEvents [] s = s"
| "runEvents (e # es) s = runEvents es (handleEvent e s)"

section \<open>The table state machine\<close>

text \<open>
  The container that owns the table state (\<^verbatim>\<open>JobsTableContainer\<close>) is imported by
  \<^verbatim>\<open>App.tsx\<close> and driven by the container's test, but its code is not among the source
  files. The state and its reducers are therefore written down from section 3 and
  section 4.2 of the specification.
\<close>

subsection \<open>Table state\<close>

text \<open>
  Modelled from the spec: the column key type of the missing container; a column is
  named by its key, as in \<^verbatim>\<open>g[0]=jobSet\<close> of the container's test.
\<close>

type_synonym ColumnKey = string

text \<open>
  Modelled from the spec: the group path of the missing container, ``the ordered sequence
  of (column key, value) pairs from outermost to a given group node''.
\<close>

type_synonym GroupPath = "(ColumnKey \<times> string) list"

text \<open>
  Modelled from the spec: the match kinds of the missing filter type, after the filter
  kinds of a column: ``free-text substring/prefix match, enumerated multi-select''.
\<close>

datatype MatchKind = Contains | StartsWith | AnyOf

text \<open>Modelled from the spec: the direction of the missing sort type.\<close>

datatype SortDirection = Ascending | Descending

text \<open>
  Modelled from the spec: the selection key of the missing container, ``either a job
  identifier or a group path''.
\<close>

datatype SelectionKey = JobKey string | GroupKey GroupPath

text \<open>
  Modelled from the spec: the \<open>TableState\<close> of the missing container, ``the aggregate of
  Grouping, ordered Filters, Sort, Pagination, Expansion Set, Selection Set, Active Detail
  Reference''. The filters are ``a triple (column key, match kind, value), one per
  filtered column, keyed by column'': an association list from the column key.
\<close>

record TableState =
  grouping :: "ColumnKey list"
  filters :: "(ColumnKey \<times> MatchKind \<times> string) list"
  sortOrder :: "ColumnKey \<times> SortDirection"
  pageIndex :: nat
  pageSize :: nat
  expanded :: "GroupPath set"
  selected :: "SelectionKey set"
  activeDetail :: "string option"

text \<open>
  Modelled from the spec: the starting state of the missing container when the URL has no
  parameter: ``page 0, default page size, default sort, no grouping, no filters, nothing
  expanded, no detail open''. The default page size and sort are the ones the container's
  test reads back from the URL (\<^verbatim>\<open>pS=50\<close>, \<^verbatim>\<open>sort[id]=jobId&sort[desc]=true\<close>).
\<close>

definition defaultTableState :: TableState where
  "defaultTableState =
     \<lparr>grouping = [], filters = [], sortOrder = (''jobId'', Descending),
      pageIndex = 0, pageSize = 50, expanded = {}, selected = {}, activeDetail = None\<rparr>"

subsection \<open>Reducers\<close>

text \<open>
  Modelled from the spec: the error of the missing reducers, ``\<open>InvalidExpansionPath\<close>:
  a reducer precondition violation''.
\<close>

datatype ReducerError = InvalidExpansionPath

text \<open>
  Modelled from the spec: \<open>setGrouping\<close> of the missing container. ``Replacing the
  grouping sequence at any position clears the Expansion Set and the Selection Set
  entirely and resets pagination to page 0.''
\<close>

definition setGrouping :: "ColumnKey list \<Rightarrow> TableState \<Rightarrow> TableState" where
  "setGrouping g s = s\<lparr>grouping := g, expanded := {}, selected := {}, pageIndex := 0\<rparr>"

text \<open>
  Modelled from the spec: the precondition of \<open>toggleExpand\<close> of the missing container,
  that the parent of the path is itself expanded. The parent of a path is the path
  without its last pair. A path of one pair names a group of the outermost level, whose
  parent is the root of the tree: the root is always shown, and the container's test
  expands such a group with nothing expanded before.
\<close>

definition parentExpanded :: "GroupPath \<Rightarrow> GroupPath set \<Rightarrow> bool" where
  "parentExpanded p E = (length p \<le> 1 \<or> butlast p \<in> E)"

text \<open>
  Modelled from the spec: \<open>toggleExpand\<close> of the missing container. It ``adds/removes a
  path from the Expansion Set; collapsing a path must also remove all paths that have it
  as a proper prefix''; ``toggling expand on a path whose parent is not itself expanded
  must be rejected (fails with an \<open>InvalidExpansionPath\<close> condition)''.
\<close>

definition toggleExpand :: "GroupPath \<Rightarrow> TableState \<Rightarrow> ReducerError + TableState" where
  "toggleExpand p s =
     (if \<not> parentExpanded p (expanded s) then Inl InvalidExpansionPath
      else if p \<in> expanded s then Inr (s\<lparr>expanded := {q \<in> expanded s. \<not> prefix p q}\<rparr>)
      else Inr (s\<lparr>expanded := insert p (expanded s)\<rparr>))"

text \<open>
  Modelled from the spec: \<open>setFilter\<close> of the missing container. It replaces the filter
  entry for that column (or adds one after the others) and ``resets pagination to
  page 0''.
\<close>

definition setFilter :: "ColumnKey \<Rightarrow> MatchKind \<Rightarrow> string \<Rightarrow> TableState \<Rightarrow> TableState" where
  "setFilter c k v s = s\<lparr>filters := AList.update c (k, v) (filters s), pageIndex := 0\<rparr>"

text \<open>
  Modelled from the spec: \<open>clearFilter\<close> of the missing container. It removes the filter
  entry for that column and ``resets pagination to page 0''.
\<close>

definition clearFilter :: "ColumnKey \<Rightarrow> TableState \<Rightarrow> TableState" where
  "clearFilter c s = s\<lparr>filters := AList.delete c (filters s), pageIndex := 0\<rparr>"

text \<open>
  Modelled from the spec: \<open>setSort\<close> of the missing container, which ``replaces the single
  sort; no pagination reset is required''.
\<close>

definition setSort :: "ColumnKey \<Rightarrow> SortDirection \<Rightarrow> TableState \<Rightarrow> TableState" where
  "setSort c d s = s\<lparr>sortOrder := (c, d)\<rparr>"

text \<open>
  Modelled from the spec: \<open>setPage\<close> of the missing container, a ``pure pagination
  change''.
\<close>

definition setPage :: "nat \<Rightarrow> TableState \<Rightarrow> TableState" where
  "setPage i s = s\<lparr>pageIndex := i\<rparr>"

text \<open>
  Modelled from the spec: \<open>setPageSize\<close> of the missing container; ``\<open>setPageSize\<close> resets
  page to 0''.
\<close>

definition setPageSize :: "nat \<Rightarrow> TableState \<Rightarrow> TableState" where
  "setPageSize n s = s\<lparr>pageSize := n, pageIndex := 0\<rparr>"

text \<open>
  Modelled from the spec: \<open>toggleSelect\<close> of the missing container. Selection is not
  transitive: only the key itself enters or leaves the set.
\<close>

definition toggleSelect :: "SelectionKey \<Rightarrow> TableState \<Rightarrow> TableState" where
  "toggleSelect k s =
     (if k \<in> selected s then s\<lparr>selected := selected s - {k}\<rparr>
      else s\<lparr>selected := insert k (selected s)\<rparr>)"

text \<open>Modelled from the spec: \<open>clearSelection\<close> of the missing container.\<close>

definition clearSelection :: "TableState \<Rightarrow> TableState" where
  "clearSelection s = s\<lparr>selected := {}\<rparr>"

text \<open>
  Modelled from the spec: \<open>openDetail\<close> of the missing container; ``at most one job
  identifier denoting which job's side-panel is open''.
\<close>

definition openDetail :: "string \<Rightarrow> TableState \<Rightarrow> TableState" where
  "openDetail j s = s\<lparr>activeDetail := Some j\<rparr>"

text \<open>Modelled from the spec: \<open>closeDetail\<close> of the missing container.\<close>

definition closeDetail :: "TableState \<Rightarrow> TableState" where
  "closeDetail s = s\<lparr>activeDetail := None\<rparr>"

subsection \<open>User intents\<close>

text \<open>
  Modelled from the spec: the user intents the missing container turns into reducer
  calls, ``one per user intent''.
\<close>

datatype Action =
  SetGrouping "ColumnKey list"
  | ToggleExpand GroupPath
  | SetFilter ColumnKey MatchKind string
  | ClearFilter ColumnKey
  | SetSort ColumnKey SortDirection
  | SetPage nat
  | SetPageSize nat
  | ToggleSelect SelectionKey
  | ClearSelection
  | OpenDetail string
  | CloseDetail

text \<open>
  Modelled from the spec: the dispatch of the missing container. ``Each reducer takes the
  current \<open>TableState\<close> and returns a new one''; only \<open>toggleExpand\<close> can fail.
\<close>

fun reduce :: "Action \<Rightarrow> TableState \<Rightarrow> ReducerError + TableState" where
  "reduce (SetGrouping g) s = Inr (setGrouping g s)"
| "reduce (ToggleExpand p) s = toggleExpand p s"
| "reduce (SetFilter c k v) s = Inr (setFilter c k v s)"
| "reduce (ClearFilter c) s = Inr (clearFilter c s)"
| "reduce (SetSort c d) s = Inr (setSort c d s)"
| "reduce (SetPage i) s = Inr (setPage i s)"
| "reduce (SetPageSize n) s = Inr (setPageSize n s)"
| "reduce (ToggleSelect k) s = Inr (toggleSelect k s)"
| "reduce ClearSelection s = Inr (clearSelection s)"
| "reduce (OpenDetail j) s = Inr (openDetail j s)"
| "reduce CloseDetail s = Inr (closeDetail s)"

text \<open>
  Modelled from the spec: a run of the missing container over a sequence of intents. A
  rejected intent is a programming error and ends the run with that error.
\<close>

fun reduceAll :: "Action list \<Rightarrow> TableState \<Rightarrow> ReducerError + TableState" where
  "reduceAll [] s = Inr s"
| "reduceAll (a # as) s =
     (case reduce a s of Inl e \<Rightarrow> Inl e | Inr s' \<Rightarrow> reduceAll as s')"

text \<open>
  Modelled from the spec: the invariant of the Expansion Set, ``expansion is monotonic
  along a path'': with a path, the set holds every proper prefix of it that names a group
  (the empty prefix is the root of the tree, which is no group).
\<close>

definition expansionClosed :: "GroupPath set \<Rightarrow> bool" where
  "expansionClosed E = (\<forall>p \<in> E. \<forall>n \<in> {1..<length p}. take n p \<in> E)"

subsection \<open>Concrete inputs\<close>

text \<open>
  The body of a window 2000 pixels wide, used to run the resize handlers on concrete
  mouse positions.
\<close>

definition wideBody :: Body where
  "wideBody = \<lparr>offsetWidth = 2000, offsetLeft = 0\<rparr>"

text \<open>
  The state after \<^verbatim>\<open>groupByColumn("Queue")\<close>, \<^verbatim>\<open>groupByColumn("Job Set")\<close> and
  \<^verbatim>\<open>groupByColumn("State")\<close> of the test ``should allow 3 level grouping'', and the paths
  of the rows the test expands: \<^verbatim>\<open>queue-1\<close>, then \<^verbatim>\<open>job-set-1\<close> under it.
\<close>

definition threeLevelGrouping :: TableState where
  "threeLevelGrouping = setGrouping [''queue'', ''jobSet'', ''state''] defaultTableState"

definition queuePath :: GroupPath where
  "queuePath = [(''queue'', ''queue-1'')]"

definition jobSetPath :: GroupPath where
  "jobSetPath = [(''queue'', ''queue-1''), (''jobSet'', ''job-set-1'')]"

section \<open>Properties of the side-panel\<close>

text \<open>
  Claim C9. In the job detail side-panel, the Logs tab and the Commands tab are disabled
  exactly when the state of the displayed job is Queued; the Details, Result and Yaml tabs
  are enabled for every job state. The five tabs are all the tabs there are.
\<close>

theorem tabs_disabled_iff_queued:
  "map label (sidebarTabs job) = [''Details'', ''Result'', ''Yaml'', ''Logs'', ''Commands''] \<and>
   tabDisabled job ''Logs'' = Some (state job = Queued) \<and>
   tabDisabled job ''Commands'' = Some (state job = Queued) \<and>
   tabDisabled job ''Details'' = Some False \<and>
   tabDisabled job ''Result'' = Some False \<and>
   tabDisabled job ''Yaml'' = Some False"
  by (simp add: tabDisabled_def sidebarTabs_def)

text \<open>The tabs of a queued job and of a running job.\<close>

theorem tabs_disabled_iff_queued_witness:
  "tabDisabled \<lparr>jobId = ''job-00'', state = Queued\<rparr> ''Logs'' = Some True \<and>
   tabDisabled \<lparr>jobId = ''job-00'', state = Queued\<rparr> ''Commands'' = Some True \<and>
   tabDisabled \<lparr>jobId = ''job-00'', state = Queued\<rparr> ''Yaml'' = Some False \<and>
   tabDisabled \<lparr>jobId = ''job-01'', state = Running\<rparr> ''Logs'' = Some False \<and>
   tabDisabled \<lparr>jobId = ''job-01'', state = Running\<rparr> ''Commands'' = Some False"
  using tabs_disabled_iff_queued [of "\<lparr>jobId = ''job-00'', state = Queued\<rparr>"]
    tabs_disabled_iff_queued [of "\<lparr>jobId = ''job-01'', state = Running\<rparr>"]
  by simp

text \<open>
  The calls of \<^verbatim>\<open>onWidthChange\<close> one mouse move adds: at most one, made only while
  resizing, with a width inside the open interval.
\<close>

lemma widthChanges_handleMouseMove:
  "widthChanges (handleMouseMove body x s) =
     widthChanges s @
       (if resizeRef s \<and> minWidth < offsetRight body x \<and> offsetRight body x < maxWidth
        then [offsetRight body x] else [])"
  by (simp add: handleMouseMove_def Let_def)

lemma widthChanges_handleEvent:
  "\<exists>ws. widthChanges (handleEvent e s) = widthChanges s @ ws \<and>
        list_all (\<lambda>w. 350 < w \<and> w < 1920) ws"
proof (cases e)
  case (MouseDown x)
  then show ?thesis by (simp add: handleMouseDown_def)
next
  case (MouseMove body x)
  then show ?thesis
    by (simp add: widthChanges_handleMouseMove minWidth_def maxWidth_def)
next
  case MouseUp
  then show ?thesis by (simp add: handleMouseUp_def)
qed

lemma widthChanges_runEvents:
  "\<exists>ws. widthChanges (runEvents es s) = widthChanges s @ ws \<and>
        list_all (\<lambda>w. 350 < w \<and> w < 1920) ws"
proof (induction es arbitrary: s)
  case Nil
  then show ?case by simp
next
  case (Cons e es)
  obtain ws1 where ws1: "widthChanges (handleEvent e s) = widthChanges s @ ws1"
      "list_all (\<lambda>w. 350 < w \<and> w < 1920) ws1"
    using widthChanges_handleEvent by blast
  obtain ws2 where ws2:
      "widthChanges (runEvents es (handleEvent e s)) = widthChanges (handleEvent e s) @ ws2"
      "list_all (\<lambda>w. 350 < w \<and> w < 1920) ws2"
    using Cons.IH by blast
  have "widthChanges (runEvents (e # es) s) = widthChanges s @ (ws1 @ ws2)"
    using ws1 ws2 by simp
  moreover have "list_all (\<lambda>w. 350 < w \<and> w < 1920) (ws1 @ ws2)"
    using ws1 ws2 by simp
  ultimately show ?case by blast
qed

text \<open>
  Claim C10. While the side-panel is resized by dragging, \<^verbatim>\<open>onWidthChange\<close> is invoked
  only with a width strictly greater than 350 pixels and strictly less than 1920 pixels:
  over any sequence of mouse events, from any state, every call added has such a width. A
  mouse position whose width lies inside the interval is reported as it is while
  resizing, and one whose width lies outside leaves the reported widths unchanged.
\<close>

theorem handleMouseMove_reports_width_in_open_interval:
  "(\<exists>ws. widthChanges (runEvents es s) = widthChanges s @ ws \<and>
         (\<forall>w \<in> set ws. 350 < w \<and> w < 1920)) \<and>
   (resizeRef s \<and> 350 < offsetRight body x \<and> offsetRight body x < 1920 \<longrightarrow>
      widthChanges (handleMouseMove body x s) = widthChanges s @ [offsetRight body x]) \<and>
   (\<not> (350 < offsetRight body x \<and> offsetRight body x < 1920) \<longrightarrow>
      widthChanges (handleMouseMove body x s) = widthChanges s)"
proof (intro conjI)
  show "\<exists>ws. widthChanges (runEvents es s) = widthChanges s @ ws \<and>
         (\<forall>w \<in> set ws. 350 < w \<and> w < 1920)"
    using widthChanges_runEvents [of es s] by (simp add: list_all_iff)
next
  show "resizeRef s \<and> 350 < offsetRight body x \<and> offsetRight body x < 1920 \<longrightarrow>
      widthChanges (handleMouseMove body x s) = widthChanges s @ [offsetRight body x]"
    by (simp add: widthChanges_handleMouseMove minWidth_def maxWidth_def)
next
  show "\<not> (350 < offsetRight body x \<and> offsetRight body x < 1920) \<longrightarrow>
      widthChanges (handleMouseMove body x s) = widthChanges s"
    by (simp add: widthChanges_handleMouseMove minWidth_def maxWidth_def)
qed

text \<open>
  A drag in a window 2000 pixels wide: the positions 1500, 1649 and 81 give the widths
  500, 351 and 1919, which are reported; 1900, 50, 1650 and 80 give 100, 1950, 350 and
  1920, which are not; after the button is released nothing is reported.
\<close>

theorem handleMouseMove_reports_width_in_open_interval_witness:
  "widthChanges
     (runEvents
        [MouseMove wideBody 1500, MouseMove wideBody 1900, MouseMove wideBody 50,
         MouseMove wideBody 1650, MouseMove wideBody 1649, MouseMove wideBody 80,
         MouseMove wideBody 81, MouseUp, MouseMove wideBody 1000]
        (handleMouseDown 1700 initialSidebarState)) = [500, 351, 1919] \<and>
   resizeRef (handleMouseDown 1700 initialSidebarState) \<and>
   offsetRight wideBody 1500 = 500 \<and>
   widthChanges (handleMouseMove wideBody 1500 (handleMouseDown 1700 initialSidebarState)) = [500] \<and>
   offsetRight wideBody 1650 = 350 \<and>
   widthChanges (handleMouseMove wideBody 1650 (handleMouseDown 1700 initialSidebarState)) = [] \<and>
   offsetRight wideBody 80 = 1920 \<and>
   widthChanges (handleMouseMove wideBody 80 (handleMouseDown 1700 initialSidebarState)) = []"
  using handleMouseMove_reports_width_in_open_interval
      [of "[MouseMove wideBody 1500, MouseMove wideBody 1900, MouseMove wideBody 50,
            MouseMove wideBody 1650, MouseMove wideBody 1649, MouseMove wideBody 80,
            MouseMove wideBody 81, MouseUp, MouseMove wideBody 1000]"
          "handleMouseDown 1700 initialSidebarState" wideBody 1500]
    handleMouseMove_reports_width_in_open_interval
      [of "[]" "handleMouseDown 1700 initialSidebarState" wideBody 1650]
    handleMouseMove_reports_width_in_open_interval
      [of "[]" "handleMouseDown 1700 initialSidebarState" wideBody 80]
  by (simp add: handleMouseDown_def handleMouseMove_def handleMouseUp_def offsetRight_def
      wideBody_def initialSidebarState_def initialResizeState_def minWidth_def maxWidth_def)

section \<open>Properties of the table state machine\<close>

text \<open>The invariant in terms of prefixes: every proper prefix that names a group is a member.\<close>

lemma expansionClosed_prefixes:
  "expansionClosed E \<longleftrightarrow> (\<forall>p \<in> E. \<forall>q. q \<noteq> [] \<and> strict_prefix q p \<longrightarrow> q \<in> E)"
proof
  assume c: "expansionClosed E"
  show "\<forall>p \<in> E. \<forall>q. q \<noteq> [] \<and> strict_prefix q p \<longrightarrow> q \<in> E"
  proof (intro ballI allI impI)
    fix p q
    assume p: "p \<in> E" and q: "q \<noteq> [] \<and> strict_prefix q p"
    then obtain r where r: "p = q @ r" "r \<noteq> []"
      by (auto simp: strict_prefix_def prefix_def)
    then have "length q \<in> {1..<length p}" using q by (cases q) auto
    with c p have "take (length q) p \<in> E" unfolding expansionClosed_def by blast
    with r show "q \<in> E" by simp
  qed
next
  assume h: "\<forall>p \<in> E. \<forall>q. q \<noteq> [] \<and> strict_prefix q p \<longrightarrow> q \<in> E"
  show "expansionClosed E"
    unfolding expansionClosed_def
  proof (intro ballI)
    fix p n
    assume p: "p \<in> E" and n: "n \<in> {1..<length p}"
    have "take n p \<noteq> []" using n by auto
    moreover have "strict_prefix (take n p) p"
      using n by (auto simp: strict_prefix_def take_is_prefix)
    ultimately show "take n p \<in> E" using h p by blast
  qed
qed

lemma expansionClosed_empty: "expansionClosed {}"
  by (simp add: expansionClosed_def)

text \<open>Expanding a path whose parent is expanded keeps the set closed.\<close>

lemma expansionClosed_insert:
  assumes c: "expansionClosed E" and pe: "parentExpanded p E"
  shows "expansionClosed (insert p E)"
  unfolding expansionClosed_def
proof (intro ballI)
  fix r n
  assume r: "r \<in> insert p E" and n: "n \<in> {1..<length r}"
  show "take n r \<in> insert p E"
  proof (cases "r \<in> E")
    case True
    with c n show ?thesis unfolding expansionClosed_def by blast
  next
    case False
    with r have rp: "r = p" by simp
    with n have "1 < length p" by auto
    with pe have b: "butlast p \<in> E" by (simp add: parentExpanded_def)
    show ?thesis
    proof (cases "n = length p - 1")
      case True
      then have "take n p = butlast p" by (simp add: butlast_conv_take)
      with b rp show ?thesis by simp
    next
      case False
      with n rp have n': "n \<in> {1..<length (butlast p)}" by auto
      then have "n \<le> length p - 1" by simp
      then have "take n (butlast p) = take n p"
        by (simp add: butlast_conv_take min_absorb1)
      moreover from c b n' have "take n (butlast p) \<in> E"
        unfolding expansionClosed_def by blast
      ultimately show ?thesis using rp by simp
    qed
  qed
qed

text \<open>Collapsing a path removes it and every path below it, which keeps the set closed.\<close>

lemma expansionClosed_collapse:
  assumes c: "expansionClosed E"
  shows "expansionClosed {q \<in> E. \<not> prefix p q}"
  unfolding expansionClosed_def
proof (intro ballI)
  fix r n
  assume r: "r \<in> {q \<in> E. \<not> prefix p q}" and n: "n \<in> {1..<length r}"
  from r c n have "take n r \<in> E" unfolding expansionClosed_def by blast
  moreover have "\<not> prefix p (take n r)"
  proof
    assume "prefix p (take n r)"
    then have "prefix p r" using take_is_prefix prefix_order.order_trans by blast
    with r show False by simp
  qed
  ultimately show "take n r \<in> {q \<in> E. \<not> prefix p q}" by simp
qed

lemma toggleExpand_closed:
  assumes "expansionClosed (expanded s)" and "toggleExpand p s = Inr s'"
  shows "expansionClosed (expanded s')"
  using assms
  by (auto simp: toggleExpand_def expansionClosed_insert expansionClosed_collapse
      split: if_splits)

lemma reduce_closed:
  assumes c: "expansionClosed (expanded s)" and r: "reduce a s = Inr s'"
  shows "expansionClosed (expanded s')"
proof (cases a)
  case (ToggleExpand p)
  with c r show ?thesis using toggleExpand_closed by simp
next
  case (SetGrouping g)
  with r show ?thesis by (auto simp: setGrouping_def expansionClosed_empty)
next
  case (SetFilter col k v)
  with c r show ?thesis by (auto simp: setFilter_def)
next
  case (ClearFilter col)
  with c r show ?thesis by (auto simp: clearFilter_def)
next
  case (SetSort col d)
  with c r show ?thesis by (auto simp: setSort_def)
next
  case (SetPage i)
  with c r show ?thesis by (auto simp: setPage_def)
next
  case (SetPageSize n)
  with c r show ?thesis by (auto simp: setPageSize_def)
next
  case (ToggleSelect k)
  with c r show ?thesis by (auto simp: toggleSelect_def)
next
  case ClearSelection
  with c r show ?thesis by (auto simp: clearSelection_def)
next
  case (OpenDetail j)
  with c r show ?thesis by (auto simp: openDetail_def)
next
  case CloseDetail
  with c r show ?thesis by (auto simp: closeDetail_def)
qed

lemma reduceAll_closed:
  "expansionClosed (expanded s) \<Longrightarrow> reduceAll as s = Inr s' \<Longrightarrow> expansionClosed (expanded s')"
proof (induction as arbitrary: s)
  case Nil
  then show ?case by simp
next
  case (Cons a as)
  then show ?case
    by (auto split: sum.splits dest: reduce_closed)
qed

lemma threeLevelGrouping_expanded: "expanded threeLevelGrouping = {}"
  by (simp add: threeLevelGrouping_def setGrouping_def)

text \<open>
  Claim C7. For every table state and every group path whose parent path is not itself
  expanded, \<open>toggleExpand\<close> on that path fails with \<open>InvalidExpansionPath\<close>, and fails
  in no other case; the path is not added, and a run of intents that meets such a toggle
  ends with the error. This preserves the invariant of the Expansion Set: a toggle that
  succeeds keeps it, and so does every run of intents, so that every member of the
  Expansion Set has all of its proper prefixes that name a group expanded.
\<close>

theorem toggleExpand_rejects_unexpanded_parent:
  "(toggleExpand p s = Inl InvalidExpansionPath \<longleftrightarrow> 1 < length p \<and> butlast p \<notin> expanded s) \<and>
   (1 < length p \<and> butlast p \<notin> expanded s \<longrightarrow>
      reduceAll (ToggleExpand p # as) s = Inl InvalidExpansionPath) \<and>
   (expansionClosed (expanded s) \<and> toggleExpand p s = Inr s' \<longrightarrow>
      expansionClosed (expanded s')) \<and>
   (expansionClosed (expanded s) \<and> reduceAll as s = Inr s'' \<longrightarrow>
      (\<forall>r \<in> expanded s''. \<forall>q. q \<noteq> [] \<and> strict_prefix q r \<longrightarrow> q \<in> expanded s''))"
proof (intro conjI impI)
  show rejected:
    "toggleExpand p s = Inl InvalidExpansionPath \<longleftrightarrow> 1 < length p \<and> butlast p \<notin> expanded s"
    by (auto simp: toggleExpand_def parentExpanded_def)
  assume "1 < length p \<and> butlast p \<notin> expanded s"
  with rejected show "reduceAll (ToggleExpand p # as) s = Inl InvalidExpansionPath"
    by simp
next
  assume "expansionClosed (expanded s) \<and> toggleExpand p s = Inr s'"
  then show "expansionClosed (expanded s')"
    using toggleExpand_closed by blast
next
  assume "expansionClosed (expanded s) \<and> reduceAll as s = Inr s''"
  then have "expansionClosed (expanded s'')"
    using reduceAll_closed by blast
  then show "\<forall>r \<in> expanded s''. \<forall>q. q \<noteq> [] \<and> strict_prefix q r \<longrightarrow> q \<in> expanded s''"
    by (simp add: expansionClosed_prefixes)
qed

text \<open>
  With three grouping levels and nothing expanded, expanding \<^verbatim>\<open>job-set-1\<close> under
  \<^verbatim>\<open>queue-1\<close> is rejected; expanding \<^verbatim>\<open>queue-1\<close> first and \<^verbatim>\<open>job-set-1\<close> after
  it is accepted, and the set then holds the path of \<^verbatim>\<open>job-set-1\<close> together with its
  prefix.
\<close>

theorem toggleExpand_rejects_unexpanded_parent_witness:
  "toggleExpand jobSetPath threeLevelGrouping = Inl InvalidExpansionPath \<and>
   reduceAll [ToggleExpand jobSetPath, ToggleExpand queuePath] threeLevelGrouping =
     Inl InvalidExpansionPath \<and>
   toggleExpand queuePath threeLevelGrouping =
     Inr (threeLevelGrouping\<lparr>expanded := {queuePath}\<rparr>) \<and>
   expansionClosed {queuePath} \<and>
   reduceAll [ToggleExpand queuePath, ToggleExpand jobSetPath, ToggleSelect (GroupKey queuePath)]
       threeLevelGrouping =
     Inr (threeLevelGrouping\<lparr>expanded := {jobSetPath, queuePath},
            selected := {GroupKey queuePath}\<rparr>) \<and>
   strict_prefix queuePath jobSetPath \<and>
   queuePath \<in> {jobSetPath, queuePath}"
proof -
  let ?s1 = "threeLevelGrouping\<lparr>expanded := {queuePath}\<rparr>"
  let ?s2 = "threeLevelGrouping\<lparr>expanded := {jobSetPath, queuePath},
               selected := {GroupKey queuePath}\<rparr>"
  let ?run = "[ToggleExpand queuePath, ToggleExpand jobSetPath, ToggleSelect (GroupKey queuePath)]"
  have closed0: "expansionClosed (expanded threeLevelGrouping)"
    by (simp add: threeLevelGrouping_expanded expansionClosed_def)
  have orphan: "1 < length jobSetPath \<and> butlast jobSetPath \<notin> expanded threeLevelGrouping"
    by (simp add: threeLevelGrouping_expanded jobSetPath_def)
  have t1: "toggleExpand queuePath threeLevelGrouping = Inr ?s1"
    by (simp add: toggleExpand_def parentExpanded_def threeLevelGrouping_expanded queuePath_def)
  have t2: "toggleExpand jobSetPath ?s1 = Inr (threeLevelGrouping\<lparr>expanded := {jobSetPath, queuePath}\<rparr>)"
    by (simp add: toggleExpand_def parentExpanded_def queuePath_def jobSetPath_def)
  have sel: "selected threeLevelGrouping = {}"
    by (simp add: threeLevelGrouping_def setGrouping_def)
  have run: "reduceAll ?run threeLevelGrouping = Inr ?s2"
    by (simp add: t1 t2 toggleSelect_def sel)
  have sp: "strict_prefix queuePath jobSetPath"
    by (simp add: strict_prefix_def queuePath_def jobSetPath_def)
  note a = toggleExpand_rejects_unexpanded_parent
      [where p = jobSetPath and s = threeLevelGrouping and as = "[ToggleExpand queuePath]"]
  note b = toggleExpand_rejects_unexpanded_parent
      [where p = queuePath and s = threeLevelGrouping and s' = ?s1 and as = ?run and s'' = ?s2]
  from a orphan have c1: "toggleExpand jobSetPath threeLevelGrouping = Inl InvalidExpansionPath"
    by blast
  from a orphan have c2:
    "reduceAll [ToggleExpand jobSetPath, ToggleExpand queuePath] threeLevelGrouping =
       Inl InvalidExpansionPath"
    by blast
  from b closed0 t1 have c3: "expansionClosed (expanded ?s1)" by blast
  from b closed0 run have
    "\<forall>r \<in> expanded ?s2. \<forall>q. q \<noteq> [] \<and> strict_prefix q r \<longrightarrow> q \<in> expanded ?s2"
    by blast
  then have c4: "queuePath \<in> expanded ?s2" using sp by (simp add: queuePath_def)
  from c1 c2 t1 c3 run sp c4 show ?thesis by simp
qed

end
